theory Spec2Isabelle
  imports Main
begin

section \<open>The launcher script \<open>runconfig.py\<close>\<close>

text \<open>
  The script has one function, \<open>run_executable\<close>, and an entry-point guard that calls it.
  The function reads facts of its surroundings (the value of \<open>__file__\<close>, the
  working directory, the file system, what standard output does with a text) and has two
  effects (text on standard output, the launch of a child process). The model makes the surroundings a record of oracles and
  the effects a trace of events, in the order in which they happen.

  Paths follow the POSIX flavour of \<open>os.path\<close>: the separator is \<open>/\<close>, a path is a
  \<open>string\<close>. The library functions the script calls are written out as the Python
  library defines them (\<open>posixpath.join\<close>, \<open>dirname\<close>, \<open>normpath\<close>, \<open>abspath\<close>,
  \<open>genericpath.isfile\<close>, \<open>subprocess.run\<close>, \<open>CalledProcessError.__str__\<close>,
  \<open>print\<close>).
\<close>

subsection \<open>Surroundings, faults and events\<close>

datatype os_error = FileNotFoundError | PermissionError | OtherOSError nat

text \<open>
  The exceptions that can travel through \<open>run_executable\<close>: an \<open>OSError\<close> of the
  operating system, \<open>subprocess.CalledProcessError\<close> with its \<open>returncode\<close> and
  \<open>cmd\<close> attributes, and the \<open>UnicodeEncodeError\<close> of a text that the encoding of
  standard output cannot write.
\<close>

datatype exn = OSError os_error | CalledProcessError int string | UnicodeEncodeError

datatype file_kind = RegularFile | Directory | SpecialFile

text \<open>
  What creating a child process for a path and waiting for it gives: the operating system
  refuses the launch, or the child runs and ends with a return code (negative when a signal
  killed it, as \<open>Popen.returncode\<close> has it).
\<close>

datatype launch_outcome = LaunchFault os_error | Exited int

text \<open>
  What \<open>print(s)\<close> does with standard output as it is:
  \<^item> \<open>Printed\<close>: the stream takes the text and the call returns (the text is on the
    device, or waits in the buffer of the stream);
  \<^item> \<open>NoStdout\<close>: \<open>sys.stdout\<close> is \<open>None\<close>, the call returns and writes nothing;
  \<^item> \<open>EncodeFault\<close>: the text cannot be encoded, the call raises
    \<open>UnicodeEncodeError\<close> and nothing enters the stream;
  \<^item> \<open>WriteFault\<close>: the text is encoded, the write to the device is attempted within the
    call (a stream that is unbuffered or line-buffered) and fails, the call raises that
    \<open>OSError\<close>.
\<close>

datatype print_outcome = Printed | NoStdout | EncodeFault | WriteFault os_error

record env =
  script_file :: string
  getcwd :: "os_error + string"
  stat_kind :: "string \<Rightarrow> file_kind option"
  launch :: "string \<Rightarrow> launch_outcome"
  stdout_print :: "string \<Rightarrow> print_outcome"
  stdout_flush_fails :: bool

text \<open>
  \<open>script_file\<close> is \<open>__file__\<close>; \<open>getcwd\<close> is \<open>os.getcwd()\<close>, which fails when the
  working directory is gone; \<open>stat_kind p\<close> is the kind of file \<open>os.stat p\<close> finds, and
  \<open>None\<close> when the call fails; \<open>launch\<close> is the outcome of executing a path;
  \<open>stdout_print s\<close> is what \<open>print(s)\<close> does; \<open>stdout_flush_fails\<close> tells whether
  the flush of standard output that the interpreter performs when it ends fails, once a
  text has entered the stream.

  One event per effect: a text that \<open>print\<close> handed to standard output, a text that
  entered the stream and whose write failed within \<open>print\<close>, the call of the
  process-launch facility with the path it is given, and the end of the wait for the child
  with the child's return code.
\<close>

datatype event = Stdout string | WriteFailed string | Launch string | ChildExit int

text \<open>
  \<open>print(s)\<close> writes \<open>s\<close> and a newline to \<open>sys.stdout\<close>. It returns \<open>None\<close>
  or raises; the script has no handler for what it raises.
\<close>

definition print :: "env \<Rightarrow> event list \<Rightarrow> string \<Rightarrow> (exn + unit) \<times> event list" where
  "print e t s =
     (case stdout_print e s of
        Printed \<Rightarrow> (Inr (), t @ [Stdout (s @ [CHR 0x0A])])
      | NoStdout \<Rightarrow> (Inr (), t)
      | EncodeFault \<Rightarrow> (Inl UnicodeEncodeError, t)
      | WriteFault err \<Rightarrow> (Inl (OSError err), t @ [WriteFailed (s @ [CHR 0x0A])]))"

text \<open>Whether a text has entered the stream of standard output.\<close>

definition stream_used :: "event list \<Rightarrow> bool" where
  "stream_used t =
     list_ex (\<lambda>ev. case ev of Stdout _ \<Rightarrow> True | WriteFailed _ \<Rightarrow> True | _ \<Rightarrow> False) t"

definition stdout_of :: "event list \<Rightarrow> string" where
  "stdout_of t = concat (map (\<lambda>e. case e of Stdout s \<Rightarrow> s | _ \<Rightarrow> []) t)"

definition launches_of :: "event list \<Rightarrow> string list" where
  "launches_of t = concat (map (\<lambda>e. case e of Launch p \<Rightarrow> [p] | _ \<Rightarrow> []) t)"

subsection \<open>\<open>os.path\<close>\<close>

definition sep :: char where
  "sep = CHR ''/''"

definition startswith_sep :: "string \<Rightarrow> bool" where
  "startswith_sep p = (case p of [] \<Rightarrow> False | c # _ \<Rightarrow> c = sep)"

definition endswith_sep :: "string \<Rightarrow> bool" where
  "endswith_sep p = (p \<noteq> [] \<and> last p = sep)"

text \<open>
  One round of the loop of \<open>posixpath.join\<close>: an absolute component replaces the path
  built so far; otherwise it is appended, after a separator unless the path is empty or
  ends with one.
\<close>

definition join_step :: "string \<Rightarrow> string \<Rightarrow> string" where
  "join_step path b =
     (if startswith_sep b then b
      else if path = [] \<or> endswith_sep path then path @ b
      else path @ [sep] @ b)"

definition os_path_join :: "string \<Rightarrow> string list \<Rightarrow> string" where
  "os_path_join a p = foldl join_step a p"

text \<open>
  \<open>posixpath.dirname\<close>: everything up to and including the last separator, without its
  trailing separators unless it consists of separators only.
\<close>

definition rfind_sep_plus1 :: "string \<Rightarrow> nat" where
  "rfind_sep_plus1 p = length p - length (takeWhile (\<lambda>c. c \<noteq> sep) (rev p))"

definition rstrip_sep :: "string \<Rightarrow> string" where
  "rstrip_sep p = rev (dropWhile (\<lambda>c. c = sep) (rev p))"

definition os_path_dirname :: "string \<Rightarrow> string" where
  "os_path_dirname p =
     (let i = rfind_sep_plus1 p;
          head = take i p
      in if head \<noteq> [] \<and> head \<noteq> replicate (length head) sep
         then rstrip_sep head else head)"

text \<open>\<open>str.split\<close> at the separator and \<open>str.join\<close> with it.\<close>

fun split_sep :: "string \<Rightarrow> string list" where
  "split_sep [] = [[]]"
| "split_sep (c # cs) =
     (if c = sep then [] # split_sep cs
      else (case split_sep cs of
              [] \<Rightarrow> [[c]]
            | x # xs \<Rightarrow> (c # x) # xs))"

fun sep_join :: "string list \<Rightarrow> string" where
  "sep_join [] = []"
| "sep_join [x] = x"
| "sep_join (x # y # ys) = x @ [sep] @ sep_join (y # ys)"

text \<open>
  \<open>posixpath.normpath\<close>. One or two leading separators are kept, three or more count as
  one. The loop over the components drops empty ones and \<open>.\<close>, and lets \<open>..\<close> cancel
  the component before it.
\<close>

definition initial_slashes :: "string \<Rightarrow> nat" where
  "initial_slashes path =
     (if startswith_sep path
      then (if take 2 path = [sep, sep] \<and> take 3 path \<noteq> [sep, sep, sep] then 2 else 1)
      else 0)"

definition norm_step :: "nat \<Rightarrow> string list \<Rightarrow> string \<Rightarrow> string list" where
  "norm_step slashes new_comps component =
     (if component = [] \<or> component = ''.'' then new_comps
      else if component \<noteq> ''..'' \<or> (slashes = 0 \<and> new_comps = [])
              \<or> (new_comps \<noteq> [] \<and> last new_comps = ''..'')
      then new_comps @ [component]
      else if new_comps \<noteq> [] then butlast new_comps
      else new_comps)"

definition os_path_normpath :: "string \<Rightarrow> string" where
  "os_path_normpath path =
     (if path = [] then ''.''
      else
        let slashes = initial_slashes path;
            comps = foldl (norm_step slashes) [] (split_sep path);
            joined = sep_join comps;
            path' = (if slashes \<noteq> 0 then replicate slashes sep @ joined else joined)
        in if path' = [] then ''.'' else path')"

text \<open>
  \<open>posixpath.abspath\<close>: a relative path is joined to the working directory first, and
  asking for the working directory may fail.
\<close>

definition os_path_abspath :: "env \<Rightarrow> string \<Rightarrow> exn + string" where
  "os_path_abspath e path =
     (if \<not> startswith_sep path
      then (case getcwd e of
              Inl err \<Rightarrow> Inl (OSError err)
            | Inr cwd \<Rightarrow> Inr (os_path_normpath (os_path_join cwd [path])))
      else Inr (os_path_normpath path))"

text \<open>
  \<open>os.path.isfile\<close>: true when \<open>os.stat\<close> succeeds and finds a regular file, false
  in every other case, a failing \<open>os.stat\<close> included.
\<close>

definition os_path_isfile :: "env \<Rightarrow> string \<Rightarrow> bool" where
  "os_path_isfile e path =
     (case stat_kind e path of
        None \<Rightarrow> False
      | Some k \<Rightarrow> k = RegularFile)"

subsection \<open>\<open>subprocess\<close>\<close>

text \<open>Decimal numerals, as \<open>%d\<close> prints them.\<close>

definition digit_char :: "nat \<Rightarrow> char" where
  "digit_char d = ''0123456789'' ! d"

fun str_nat :: "nat \<Rightarrow> string" where
  "str_nat n = (if n < 10 then [digit_char n] else str_nat (n div 10) @ [digit_char (n mod 10)])"

declare str_nat.simps [simp del]

definition str_int :: "int \<Rightarrow> string" where
  "str_int i = (if i < 0 then ''-'' @ str_nat (nat (- i)) else str_nat (nat i))"

definition quoted :: "string \<Rightarrow> string" where
  "quoted s = [CHR 0x27] @ s @ [CHR 0x27]"

text \<open>
  \<open>CalledProcessError.__str__\<close>. A negative return code is the number of the signal that
  ended the child; the table of signal names (\<open>signal.Signals\<close>) belongs to the platform
  and is a parameter, \<open>None\<close> where the lookup raises \<open>ValueError\<close>.
\<close>

definition CalledProcessError_str :: "(nat \<Rightarrow> string option) \<Rightarrow> int \<Rightarrow> string \<Rightarrow> string" where
  "CalledProcessError_str signals returncode cmd =
     (if returncode \<noteq> 0 \<and> returncode < 0
      then (case signals (nat (- returncode)) of
              Some name \<Rightarrow>
                ''Command '' @ quoted cmd @ '' died with <Signals.'' @ name @ '': ''
                  @ str_int (- returncode) @ ''>.''
            | None \<Rightarrow>
                ''Command '' @ quoted cmd @ '' died with unknown signal ''
                  @ str_int (- returncode) @ ''.'')
      else ''Command '' @ quoted cmd @ '' returned non-zero exit status ''
             @ str_int returncode @ ''.'')"

text \<open>
  \<open>subprocess.run(args, check=check)\<close> with a string for \<open>args\<close>: the path is executed
  without arguments. A launch the operating system refuses raises its \<open>OSError\<close> out of
  \<open>Popen\<close>; otherwise \<open>run\<close> waits for the child, and with \<open>check\<close> a return code other
  than zero raises \<open>CalledProcessError\<close>. The value returned is the return code of the
  \<open>CompletedProcess\<close>.
\<close>

definition subprocess_run :: "env \<Rightarrow> string \<Rightarrow> bool \<Rightarrow> event list \<Rightarrow> (exn + int) \<times> event list" where
  "subprocess_run e args check t =
     (case launch e args of
        LaunchFault err \<Rightarrow> (Inl (OSError err), t @ [Launch args])
      | Exited retcode \<Rightarrow>
          (let t' = t @ [Launch args, ChildExit retcode]
           in if check \<and> retcode \<noteq> 0
              then (Inl (CalledProcessError retcode args), t')
              else (Inr retcode, t')))"

subsection \<open>\<open>run_executable\<close>\<close>

text \<open>Line 9 of the script: the fixed relative path of the executable.\<close>

definition relative_path :: string where
  "relative_path = os_path_join ''obj-x86_64-pc-windows-msvc'' [''dist'', ''bin'', ''lunarfox.exe'']"

text \<open>Line 6, as far as the call of \<open>abspath\<close>: the location of the script.\<close>

definition script_location :: "env \<Rightarrow> exn + string" where
  "script_location e = os_path_abspath e (script_file e)"

text \<open>Lines 6 to 12: the path of the executable, or the fault of resolving it.\<close>

definition exe_path :: "env \<Rightarrow> exn + string" where
  "exe_path e =
     (case script_location e of
        Inl x \<Rightarrow> Inl x
      | Inr location \<Rightarrow>
          (let script_dir = os_path_dirname location
           in Inr (os_path_join script_dir [relative_path])))"

text \<open>
  The whole function. It returns \<open>None\<close> (\<open>Inr ()\<close>) or lets an exception out
  (\<open>Inl\<close>), and extends the trace by its effects. The \<open>except\<close> clause names
  \<open>CalledProcessError\<close> only. Each of the two \<open>print\<close> calls is the last thing its
  branch does, and neither is guarded: what the call raises leaves the function, from
  inside the \<open>except\<close> clause too.
\<close>

definition run_executable :: "(nat \<Rightarrow> string option) \<Rightarrow> env \<Rightarrow> event list \<Rightarrow> (exn + unit) \<times> event list" where
  "run_executable signals e t =
     (case exe_path e of
        Inl x \<Rightarrow> (Inl x, t)
      | Inr path \<Rightarrow>
          if \<not> os_path_isfile e path
          then print e t (''Error: The executable was not found at '' @ path)
          else (case subprocess_run e path True t of
                  (Inl (CalledProcessError rc cmd), t') \<Rightarrow>
                    print e t' (''Error: The executable failed with error ''
                                  @ CalledProcessError_str signals rc cmd)
                | (Inl x, t') \<Rightarrow> (Inl x, t')
                | (Inr _, t') \<Rightarrow> (Inr (), t')))"

text \<open>
  The entry point: the script run as a program calls \<open>run_executable\<close> once, and
  nothing else writes to standard output. The interpreter then flushes standard output:
  when that flush fails it ends with status 120, whatever the call did. Otherwise it ends
  with status 0 when the call returned, and with status 1, after the traceback, when an
  exception left it. A stream that no text has entered has nothing to flush.
\<close>

definition main_exit_status :: "(nat \<Rightarrow> string option) \<Rightarrow> env \<Rightarrow> nat" where
  "main_exit_status signals e =
     (case run_executable signals e [] of
        (r, t) \<Rightarrow>
          if stream_used t \<and> stdout_flush_fails e then 120
          else (case r of
                  Inr _ \<Rightarrow> 0
                | Inl _ \<Rightarrow> 1))"

text \<open>
  Two calls one after the other, as \<open>run_executable(); run_executable()\<close> runs them:
  the second call starts where the first one ended, in the surroundings of its own moment,
  and does not start when the first one lets an exception out.
\<close>

definition run_twice :: "(nat \<Rightarrow> string option) \<Rightarrow> env \<Rightarrow> env \<Rightarrow> event list \<Rightarrow> (exn + unit) \<times> event list" where
  "run_twice signals e1 e2 t =
     (case run_executable signals e1 t of
        (Inl x, t1) \<Rightarrow> (Inl x, t1)
      | (Inr _, t1) \<Rightarrow> run_executable signals e2 t1)"

subsection \<open>Concrete surroundings\<close>

text \<open>
  The scenario of the specification: the script lies at \<open>/opt/app/runconfig\<close>. The kind
  of file at the path of the executable and the outcome of launching it are left open.
  Standard output takes every text, and the final flush succeeds.
\<close>

definition example_target :: string where
  "example_target = ''/opt/app/obj-x86_64-pc-windows-msvc/dist/bin/lunarfox.exe''"

definition example_env :: "file_kind option \<Rightarrow> launch_outcome \<Rightarrow> env" where
  "example_env k out =
     \<lparr>script_file = ''/opt/app/runconfig'',
      getcwd = Inr ''/home/user'',
      stat_kind = (\<lambda>p. if p = example_target then k else None),
      launch = (\<lambda>p. if p = example_target then out else LaunchFault FileNotFoundError),
      stdout_print = (\<lambda>s. Printed),
      stdout_flush_fails = False\<rparr>"

text \<open>
  The same with standard output sent through the block buffer to a device that refuses
  every write (\<open>/dev/full\<close>, a pipe whose reader is gone): \<open>print\<close> returns, the
  flush at the end fails.
\<close>

definition example_env_full :: "file_kind option \<Rightarrow> launch_outcome \<Rightarrow> env" where
  "example_env_full k out = (example_env k out)\<lparr>stdout_flush_fails := True\<rparr>"

text \<open>
  The same device behind an unbuffered standard output (\<open>python -u\<close>): the write fails
  within \<open>print\<close>, with \<open>ENOSPC\<close> (28), and nothing is left to flush.
\<close>

definition example_env_unbuffered_full :: "file_kind option \<Rightarrow> launch_outcome \<Rightarrow> env" where
  "example_env_unbuffered_full k out =
     (example_env k out)\<lparr>stdout_print := (\<lambda>s. WriteFault (OtherOSError 28))\<rparr>"

text \<open>
  A script in a directory whose name holds the byte \<open>0xFF\<close>, which is not UTF-8; standard
  output encodes strictly and refuses every text that holds that byte.
\<close>

definition example_target_unencodable :: string where
  "example_target_unencodable =
     ''/opt/'' @ [CHR 0xFF] @ ''/obj-x86_64-pc-windows-msvc/dist/bin/lunarfox.exe''"

definition example_env_unencodable :: "file_kind option \<Rightarrow> launch_outcome \<Rightarrow> env" where
  "example_env_unencodable k out =
     \<lparr>script_file = ''/opt/'' @ [CHR 0xFF] @ ''/runconfig'',
      getcwd = Inr ''/home/user'',
      stat_kind = (\<lambda>p. if p = example_target_unencodable then k else None),
      launch = (\<lambda>p. if p = example_target_unencodable then out
                     else LaunchFault FileNotFoundError),
      stdout_print = (\<lambda>s. if CHR 0xFF \<in> set s then EncodeFault else Printed),
      stdout_flush_fails = False\<rparr>"

text \<open>A script started through a relative path that is not in normal form.\<close>

definition example_env_relative :: env where
  "example_env_relative =
     \<lparr>script_file = ''tools/../runconfig.py'',
      getcwd = Inr ''/srv/lunarfox'',
      stat_kind = (\<lambda>p. None),
      launch = (\<lambda>p. LaunchFault FileNotFoundError),
      stdout_print = (\<lambda>s. Printed),
      stdout_flush_fails = False\<rparr>"


definition example_signals :: "nat \<Rightarrow> string option" where
  "example_signals n =
     (if n = 9 then Some ''SIGKILL'' else if n = 15 then Some ''SIGTERM'' else None)"

text \<open>
  The same script at a later moment: another working directory, every path a regular
  file, every child ending with return code 0.
\<close>

definition example_env_later :: env where
  "example_env_later =
     \<lparr>script_file = ''/opt/app/runconfig'',
      getcwd = Inr ''/tmp'',
      stat_kind = (\<lambda>p. Some RegularFile),
      launch = (\<lambda>p. Exited 0),
      stdout_print = (\<lambda>s. Printed),
      stdout_flush_fails = False\<rparr>"

text \<open>
  Surroundings that agree with \<open>example_env (Some RegularFile) (Exited 3)\<close> on the
  location of the script, on the file at the path of the executable, on the outcome of
  launching it and on what \<open>print\<close> does, and on nothing else.
\<close>

definition example_env_other :: env where
  "example_env_other =
     \<lparr>script_file = ''/opt/app/./tools/../runconfig'',
      getcwd = Inl PermissionError,
      stat_kind = (\<lambda>p. if p = example_target then Some RegularFile else Some Directory),
      launch = (\<lambda>p. Exited 3),
      stdout_print = (\<lambda>s. Printed),
      stdout_flush_fails = True\<rparr>"

section \<open>Properties\<close>

subsection \<open>Traces\<close>

lemma launches_of_append: "launches_of (t @ u) = launches_of t @ launches_of u"
  by (simp add: launches_of_def)

lemma stdout_of_append: "stdout_of (t @ u) = stdout_of t @ stdout_of u"
  by (simp add: stdout_of_def)

lemma print_printed:
  assumes "stdout_print e s = Printed"
  shows "print e t s = (Inr (), t @ [Stdout (s @ [CHR 0x0A])])"
  using assms by (simp add: print_def)

lemma launches_of_print: "launches_of (snd (print e t s)) = launches_of t"
  by (simp add: print_def launches_of_def split: print_outcome.splits)

lemma print_frame: "print e t s = (fst (print e [] s), t @ snd (print e [] s))"
  by (simp add: print_def split: print_outcome.splits)

lemma print_raises:
  assumes "fst (print e t s) = Inl x"
  shows "(stdout_print e s = EncodeFault \<and> x = UnicodeEncodeError)
         \<or> (\<exists>err. stdout_print e s = WriteFault err \<and> x = OSError err)"
  using assms by (simp add: print_def split: print_outcome.splits)

text \<open>
  \<open>run_executable\<close> never reads the trace: what it returns and what it adds are those of
  a run from the empty trace.
\<close>

lemma run_executable_frame:
  "run_executable signals e t =
     (fst (run_executable signals e []), t @ snd (run_executable signals e []))"
  by (simp add: run_executable_def subprocess_run_def print_def Let_def
           split: sum.splits launch_outcome.splits exn.splits print_outcome.splits)

subsection \<open>The two branches of the existence check\<close>

lemma run_missing:
  assumes "exe_path e = Inr p" and "\<not> os_path_isfile e p"
  shows "run_executable signals e t =
           print e t (''Error: The executable was not found at '' @ p)"
  using assms by (simp add: run_executable_def)

lemma run_launched:
  assumes "exe_path e = Inr p" and "os_path_isfile e p"
  shows "run_executable signals e t =
           (case launch e p of
              LaunchFault err \<Rightarrow> (Inl (OSError err), t @ [Launch p])
            | Exited rc \<Rightarrow>
                if rc = 0 then (Inr (), t @ [Launch p, ChildExit 0])
                else print e (t @ [Launch p, ChildExit rc])
                       (''Error: The executable failed with error ''
                          @ CalledProcessError_str signals rc p))"
  using assms
  by (simp add: run_executable_def subprocess_run_def Let_def split: launch_outcome.splits)

lemma run_unresolved:
  assumes "exe_path e = Inl x"
  shows "run_executable signals e t = (Inl x, t)"
  using assms by (simp add: run_executable_def)

lemma main_exit_status_eq:
  "main_exit_status signals e =
     (if stream_used (snd (run_executable signals e [])) \<and> stdout_flush_fails e then 120
      else (case fst (run_executable signals e []) of Inr _ \<Rightarrow> 0 | Inl _ \<Rightarrow> 1))"
  by (simp add: main_exit_status_def split: prod.splits)

subsection \<open>The path of the executable\<close>

lemma relative_path_eq: "relative_path = ''obj-x86_64-pc-windows-msvc/dist/bin/lunarfox.exe''"
  by code_simp

text \<open>
  When \<open>__file__\<close> is an absolute path in normal form already, as it is for a script
  started through such a path, the location of the script is \<open>__file__\<close> itself.
\<close>

lemma script_location_absolute:
  assumes "startswith_sep f" and "os_path_normpath f = f" and "script_file e = f"
  shows "script_location e = Inr f"
  using assms by (simp add: script_location_def os_path_abspath_def)

text \<open>
  Resolving the path fails in one way only: \<open>__file__\<close> is relative and the working
  directory cannot be read.
\<close>

lemma exe_path_fault:
  assumes "exe_path e = Inl x"
  shows "\<exists>err. x = OSError err \<and> getcwd e = Inl err \<and> \<not> startswith_sep (script_file e)"
  using assms
  by (auto simp: exe_path_def script_location_def os_path_abspath_def Let_def
           split: sum.splits if_splits)

lemma example_path: "exe_path (example_env k out) = Inr example_target"
  by code_simp

lemma example_path_full: "exe_path (example_env_full k out) = Inr example_target"
  by code_simp

lemma example_path_unbuffered_full:
  "exe_path (example_env_unbuffered_full k out) = Inr example_target"
  by code_simp

lemma example_path_unencodable:
  "exe_path (example_env_unencodable k out) = Inr example_target_unencodable"
  by code_simp

text \<open>
  Claim C1. The location \<open>L\<close> of the script is what line 6 resolves \<open>__file__\<close> to.
  For every such \<open>L\<close>, the path of the executable is the join of the directory of \<open>L\<close>
  and the relative path made of \<open>obj-x86_64-pc-windows-msvc\<close>, \<open>dist\<close>, \<open>bin\<close> and
  \<open>lunarfox.exe\<close>; and it depends on \<open>L\<close> only: whatever else differs in the
  surroundings (working directory, file system, outcomes of launches), the same location
  gives the same path.
\<close>

theorem exe_path_from_location:
  assumes "script_location e = Inr L"
  shows "exe_path e = Inr (os_path_join (os_path_dirname L)
            [os_path_join ''obj-x86_64-pc-windows-msvc'' [''dist'', ''bin'', ''lunarfox.exe'']])
         \<and> (\<forall>e'. script_location e' = Inr L \<longrightarrow> exe_path e' = exe_path e)"
  using assms by (simp add: exe_path_def relative_path_def)

theorem exe_path_from_location_witness:
  "script_location example_env_relative = Inr ''/srv/lunarfox/runconfig.py''
   \<and> exe_path example_env_relative =
       Inr ''/srv/lunarfox/obj-x86_64-pc-windows-msvc/dist/bin/lunarfox.exe''"
proof -
  have h: "script_location example_env_relative = Inr ''/srv/lunarfox/runconfig.py''"
    by code_simp
  have d: "os_path_join (os_path_dirname ''/srv/lunarfox/runconfig.py'')
            [os_path_join ''obj-x86_64-pc-windows-msvc'' [''dist'', ''bin'', ''lunarfox.exe'']]
           = ''/srv/lunarfox/obj-x86_64-pc-windows-msvc/dist/bin/lunarfox.exe''"
    by code_simp
  show ?thesis using exe_path_from_location [OF h] h d by simp
qed

subsection \<open>The outcomes of a run\<close>

text \<open>
  Claim C2, as the specification states it, fails: nothing is found at the path of the
  executable, and yet the call does not return normally and prints nothing, because the
  path holds a byte that standard output cannot encode and \<open>print\<close> raises
  \<open>UnicodeEncodeError\<close>; the script ends with status 1.
\<close>

theorem missing_executable_reported_counterexample:
  "exe_path (example_env_unencodable None (Exited 0)) = Inr example_target_unencodable
   \<and> stat_kind (example_env_unencodable None (Exited 0)) example_target_unencodable = None
   \<and> run_executable example_signals (example_env_unencodable None (Exited 0)) [] =
       (Inl UnicodeEncodeError, [])
   \<and> main_exit_status example_signals (example_env_unencodable None (Exited 0)) = 1"
  by code_simp

text \<open>
  Claim C2, amended. When the path of the executable is computed and nothing is found
  there (\<open>os.stat\<close> finds no file), \<open>run_executable\<close> launches nothing and does
  nothing but \<open>print\<close> the report, which ends with the path. When standard output takes
  that text, the report is the one text added to standard output and the call returns
  normally; when moreover the final flush succeeds, the script ends with status 0.
\<close>

theorem missing_executable_reported:
  assumes "exe_path e = Inr p" and "stat_kind e p = None"
  shows "run_executable signals e t =
           print e t (''Error: The executable was not found at '' @ p)
         \<and> launches_of (snd (run_executable signals e t)) = launches_of t
         \<and> (stdout_print e (''Error: The executable was not found at '' @ p) = Printed \<longrightarrow>
              run_executable signals e t =
                (Inr (), t @ [Stdout (''Error: The executable was not found at '' @ p @ [CHR 0x0A])])
              \<and> stdout_of (snd (run_executable signals e t)) =
                  stdout_of t @ ''Error: The executable was not found at '' @ p @ [CHR 0x0A]
              \<and> (\<not> stdout_flush_fails e \<longrightarrow> main_exit_status signals e = 0))"
proof -
  have "\<not> os_path_isfile e p"
    using assms(2) by (simp add: os_path_isfile_def)
  then have r: "\<And>u. run_executable signals e u =
      print e u (''Error: The executable was not found at '' @ p)"
    using assms(1) by (rule run_missing [rotated])
  have a: "run_executable signals e t =
             print e t (''Error: The executable was not found at '' @ p)"
    by (rule r)
  have b: "launches_of (snd (run_executable signals e t)) = launches_of t"
    unfolding r by (rule launches_of_print)
  have c: "run_executable signals e t =
                (Inr (), t @ [Stdout (''Error: The executable was not found at '' @ p @ [CHR 0x0A])])
              \<and> stdout_of (snd (run_executable signals e t)) =
                  stdout_of t @ ''Error: The executable was not found at '' @ p @ [CHR 0x0A]
              \<and> (\<not> stdout_flush_fails e \<longrightarrow> main_exit_status signals e = 0)"
    if "stdout_print e (''Error: The executable was not found at '' @ p) = Printed"
    using that by (simp add: r print_printed stdout_of_def main_exit_status_eq)
  from a b c show ?thesis by blast
qed

theorem missing_executable_reported_witness:
  "stat_kind (example_env None (Exited 0)) example_target = None
   \<and> run_executable example_signals (example_env None (Exited 0)) [] =
       (Inr (), [Stdout (''Error: The executable was not found at '' @ example_target @ [CHR 0x0A])])
   \<and> main_exit_status example_signals (example_env None (Exited 0)) = 0"
proof -
  have s: "stat_kind (example_env None (Exited 0)) example_target = None"
    by (simp add: example_env_def)
  have q: "stdout_print (example_env None (Exited 0))
             (''Error: The executable was not found at '' @ example_target) = Printed"
    by (simp add: example_env_def)
  have f: "\<not> stdout_flush_fails (example_env None (Exited 0))"
    by (simp add: example_env_def)
  note m = missing_executable_reported [OF example_path s, of example_signals "[]",
             THEN conjunct2, THEN conjunct2, rule_format, OF q]
  show ?thesis
    using m s f by simp
qed

text \<open>
  Claim C3. When a regular file is found at the path of the executable and the child
  ends with return code 0, \<open>run_executable\<close> launches that path once, waits for the
  child, prints nothing and returns normally; the script ends with status 0.
\<close>

theorem successful_launch_silent:
  assumes "exe_path e = Inr p" and "os_path_isfile e p" and "launch e p = Exited 0"
  shows "run_executable signals e t = (Inr (), t @ [Launch p, ChildExit 0])
         \<and> launches_of (snd (run_executable signals e t)) = launches_of t @ [p]
         \<and> stdout_of (snd (run_executable signals e t)) = stdout_of t
         \<and> main_exit_status signals e = 0"
proof -
  have r: "\<And>u. run_executable signals e u = (Inr (), u @ [Launch p, ChildExit 0])"
    using run_launched [OF assms(1,2)] assms(3) by simp
  show ?thesis
    by (simp add: r launches_of_def stdout_of_def main_exit_status_eq stream_used_def)
qed

theorem successful_launch_silent_witness:
  "os_path_isfile (example_env_full (Some RegularFile) (Exited 0)) example_target
   \<and> run_executable example_signals (example_env_full (Some RegularFile) (Exited 0)) [] =
       (Inr (), [Launch example_target, ChildExit 0])
   \<and> main_exit_status example_signals (example_env_full (Some RegularFile) (Exited 0)) = 0"
proof -
  have f: "os_path_isfile (example_env_full (Some RegularFile) (Exited 0)) example_target"
    by (simp add: example_env_full_def example_env_def os_path_isfile_def)
  have l: "launch (example_env_full (Some RegularFile) (Exited 0)) example_target = Exited 0"
    by (simp add: example_env_full_def example_env_def)
  show ?thesis
    using successful_launch_silent [OF example_path_full f l, of example_signals "[]"] f
    by simp
qed

text \<open>
  Claim C4, as the specification states it, fails: a regular file is found, the child
  ends with return code 3, the \<open>CalledProcessError\<close> is caught, and the \<open>print\<close> inside
  the handler raises \<open>UnicodeEncodeError\<close>, which nothing catches: the fault leaves
  \<open>run_executable\<close> and no report is printed.
\<close>

theorem child_failure_reported_counterexample:
  "exe_path (example_env_unencodable (Some RegularFile) (Exited 3)) =
     Inr example_target_unencodable
   \<and> os_path_isfile (example_env_unencodable (Some RegularFile) (Exited 3))
       example_target_unencodable
   \<and> launch (example_env_unencodable (Some RegularFile) (Exited 3))
       example_target_unencodable = Exited 3
   \<and> run_executable example_signals (example_env_unencodable (Some RegularFile) (Exited 3)) [] =
       (Inl UnicodeEncodeError, [Launch example_target_unencodable, ChildExit 3])"
  by code_simp

text \<open>
  Claim C4, amended. When a regular file is found at the path of the executable and the
  child ends with a return code other than 0, \<open>run_executable\<close> catches the
  \<open>CalledProcessError\<close> and does nothing more but \<open>print\<close> a report that carries the
  text of the exception. When standard output takes that text, the report is printed and
  the call returns normally. For a positive return code the text of the exception names
  the command and the return code.
\<close>

theorem child_failure_reported:
  assumes "exe_path e = Inr p" and "os_path_isfile e p"
    and "launch e p = Exited rc" and "rc \<noteq> 0"
  shows "run_executable signals e t =
           print e (t @ [Launch p, ChildExit rc])
             (''Error: The executable failed with error ''
                @ CalledProcessError_str signals rc p)
         \<and> (stdout_print e (''Error: The executable failed with error ''
                              @ CalledProcessError_str signals rc p) = Printed \<longrightarrow>
              run_executable signals e t =
                (Inr (), t @ [Launch p, ChildExit rc,
                              Stdout (''Error: The executable failed with error ''
                                        @ CalledProcessError_str signals rc p @ [CHR 0x0A])])
              \<and> stdout_of (snd (run_executable signals e t)) =
                  stdout_of t @ ''Error: The executable failed with error ''
                    @ CalledProcessError_str signals rc p @ [CHR 0x0A])
         \<and> (0 < rc \<longrightarrow> CalledProcessError_str signals rc p =
               ''Command '' @ quoted p @ '' returned non-zero exit status '' @ str_int rc @ ''.'')"
proof -
  have r: "\<And>u. run_executable signals e u =
             print e (u @ [Launch p, ChildExit rc])
               (''Error: The executable failed with error ''
                  @ CalledProcessError_str signals rc p)"
    using run_launched [OF assms(1,2)] assms(3,4) by simp
  have a: "run_executable signals e t =
           print e (t @ [Launch p, ChildExit rc])
             (''Error: The executable failed with error ''
                @ CalledProcessError_str signals rc p)"
    by (rule r)
  have b: "run_executable signals e t =
                (Inr (), t @ [Launch p, ChildExit rc,
                              Stdout (''Error: The executable failed with error ''
                                        @ CalledProcessError_str signals rc p @ [CHR 0x0A])])
              \<and> stdout_of (snd (run_executable signals e t)) =
                  stdout_of t @ ''Error: The executable failed with error ''
                    @ CalledProcessError_str signals rc p @ [CHR 0x0A]"
    if "stdout_print e (''Error: The executable failed with error ''
                              @ CalledProcessError_str signals rc p) = Printed"
    using that by (simp add: r print_printed stdout_of_def)
  have c: "CalledProcessError_str signals rc p =
               ''Command '' @ quoted p @ '' returned non-zero exit status '' @ str_int rc @ ''.''"
    if "0 < rc"
    using that by (simp add: CalledProcessError_str_def)
  from a b c show ?thesis by blast
qed

theorem child_failure_reported_witness:
  "stdout_of (snd (run_executable example_signals
                     (example_env (Some RegularFile) (Exited 3)) [])) =
     ''Error: The executable failed with error Command '' @ quoted example_target
       @ '' returned non-zero exit status 3.'' @ [CHR 0x0A]"
proof -
  have f: "os_path_isfile (example_env (Some RegularFile) (Exited 3)) example_target"
    by (simp add: example_env_def os_path_isfile_def)
  have l: "launch (example_env (Some RegularFile) (Exited 3)) example_target = Exited 3"
    by (simp add: example_env_def)
  have n: "(3::int) \<noteq> 0" by simp
  have s: "str_int 3 = ''3''" by code_simp
  have q: "stdout_print (example_env (Some RegularFile) (Exited 3))
             (''Error: The executable failed with error ''
                @ CalledProcessError_str example_signals 3 example_target) = Printed"
    by (simp add: example_env_def)
  note c = child_failure_reported [OF example_path f l n, of example_signals "[]"]
  have b: "CalledProcessError_str example_signals 3 example_target =
             ''Command '' @ quoted example_target @ '' returned non-zero exit status 3.''"
    using c [THEN conjunct2, THEN conjunct2] s by simp
  note d = c [THEN conjunct2, THEN conjunct1, rule_format, OF q, THEN conjunct2]
  show ?thesis
    unfolding d b by (simp add: stdout_of_def)
qed






subsection \<open>The scenario of the specification\<close>

lemma scenario_location:
  assumes "script_file e = ''/opt/app/runconfig''"
  shows "script_location e = Inr ''/opt/app/runconfig''"
proof (rule script_location_absolute [OF _ _ assms])
  show "startswith_sep ''/opt/app/runconfig''" by code_simp
  show "os_path_normpath ''/opt/app/runconfig'' = ''/opt/app/runconfig''" by code_simp
qed

lemma scenario_join:
  "os_path_join (os_path_dirname ''/opt/app/runconfig'') [relative_path] =
     ''/opt/app/obj-x86_64-pc-windows-msvc/dist/bin/lunarfox.exe''"
  by code_simp

text \<open>
  Claim C7. With the script at \<open>/opt/app/runconfig\<close> the path of the executable is
  \<open>/opt/app/obj-x86_64-pc-windows-msvc/dist/bin/lunarfox.exe\<close>. When no regular file
  is there, the one thing the call does is to \<open>print\<close> the report followed by exactly
  that path, and the line that standard output takes is that text.
\<close>

theorem scenario_opt_app:
  assumes "script_file e = ''/opt/app/runconfig''"
  shows "exe_path e = Inr ''/opt/app/obj-x86_64-pc-windows-msvc/dist/bin/lunarfox.exe''
         \<and> (\<not> os_path_isfile e ''/opt/app/obj-x86_64-pc-windows-msvc/dist/bin/lunarfox.exe'' \<longrightarrow>
              run_executable signals e t =
                print e t ''Error: The executable was not found at /opt/app/obj-x86_64-pc-windows-msvc/dist/bin/lunarfox.exe'')
         \<and> (\<not> os_path_isfile e ''/opt/app/obj-x86_64-pc-windows-msvc/dist/bin/lunarfox.exe''
              \<and> stdout_print e ''Error: The executable was not found at /opt/app/obj-x86_64-pc-windows-msvc/dist/bin/lunarfox.exe'' = Printed \<longrightarrow>
              run_executable signals e t =
                (Inr (), t @ [Stdout (''Error: The executable was not found at /opt/app/obj-x86_64-pc-windows-msvc/dist/bin/lunarfox.exe'' @ [CHR 0x0A])]))"
proof -
  have p: "exe_path e = Inr ''/opt/app/obj-x86_64-pc-windows-msvc/dist/bin/lunarfox.exe''"
    unfolding exe_path_def scenario_location [OF assms]
    by (simp only: sum.case Let_def scenario_join)
  have m: "run_executable signals e t =
             print e t ''Error: The executable was not found at /opt/app/obj-x86_64-pc-windows-msvc/dist/bin/lunarfox.exe''"
    if n: "\<not> os_path_isfile e ''/opt/app/obj-x86_64-pc-windows-msvc/dist/bin/lunarfox.exe''"
    using run_missing [OF p n, of signals t] by simp
  have q: "run_executable signals e t =
             (Inr (), t @ [Stdout (''Error: The executable was not found at /opt/app/obj-x86_64-pc-windows-msvc/dist/bin/lunarfox.exe'' @ [CHR 0x0A])])"
    if n: "\<not> os_path_isfile e ''/opt/app/obj-x86_64-pc-windows-msvc/dist/bin/lunarfox.exe''"
      and a: "stdout_print e ''Error: The executable was not found at /opt/app/obj-x86_64-pc-windows-msvc/dist/bin/lunarfox.exe'' = Printed"
    unfolding m [OF n] by (rule print_printed [OF a])
  from p m q show ?thesis by blast
qed

theorem scenario_opt_app_witness:
  "script_file (example_env None (Exited 0)) = ''/opt/app/runconfig''
   \<and> \<not> os_path_isfile (example_env None (Exited 0))
         ''/opt/app/obj-x86_64-pc-windows-msvc/dist/bin/lunarfox.exe''
   \<and> stdout_of (snd (run_executable example_signals (example_env None (Exited 0)) [])) =
       ''Error: The executable was not found at /opt/app/obj-x86_64-pc-windows-msvc/dist/bin/lunarfox.exe'' @ [CHR 0x0A]"
proof -
  have f: "script_file (example_env None (Exited 0)) = ''/opt/app/runconfig''"
    by (simp add: example_env_def)
  have a: "\<not> os_path_isfile (example_env None (Exited 0))
              ''/opt/app/obj-x86_64-pc-windows-msvc/dist/bin/lunarfox.exe''
           \<and> stdout_print (example_env None (Exited 0))
               ''Error: The executable was not found at /opt/app/obj-x86_64-pc-windows-msvc/dist/bin/lunarfox.exe'' = Printed"
    by (simp add: example_env_def os_path_isfile_def)
  note r = scenario_opt_app [OF f, of example_signals "[]", THEN conjunct2, THEN conjunct2,
             rule_format, OF a]
  show ?thesis
    unfolding r using f a by (simp add: stdout_of_def)
qed

subsection \<open>Relations between runs\<close>

text \<open>
  Claim C8. Two calls in sequence, each finding a regular file at the path and each child
  ending with return code 0: both calls return normally, each adds one launch of the path
  and the wait for it, nothing is printed, and the second call does what it does from the
  empty trace, whatever the first one left.
\<close>

theorem two_runs_independent:
  assumes "exe_path e1 = Inr p" and "os_path_isfile e1 p" and "launch e1 p = Exited 0"
    and "exe_path e2 = Inr p" and "os_path_isfile e2 p" and "launch e2 p = Exited 0"
  shows "run_twice signals e1 e2 t = (Inr (), t @ [Launch p, ChildExit 0, Launch p, ChildExit 0])
         \<and> run_executable signals e1 [] = (Inr (), [Launch p, ChildExit 0])
         \<and> run_executable signals e2 [] = (Inr (), [Launch p, ChildExit 0])
         \<and> run_twice signals e1 e2 t =
             (fst (run_executable signals e2 []),
              t @ snd (run_executable signals e1 []) @ snd (run_executable signals e2 []))
         \<and> launches_of (snd (run_twice signals e1 e2 t)) = launches_of t @ [p, p]
         \<and> stdout_of (snd (run_twice signals e1 e2 t)) = stdout_of t"
proof -
  have r1: "\<And>u. run_executable signals e1 u = (Inr (), u @ [Launch p, ChildExit 0])"
    using run_launched [OF assms(1,2)] assms(3) by simp
  have r2: "\<And>u. run_executable signals e2 u = (Inr (), u @ [Launch p, ChildExit 0])"
    using run_launched [OF assms(4,5)] assms(6) by simp
  have tw: "run_twice signals e1 e2 t =
              (Inr (), t @ [Launch p, ChildExit 0, Launch p, ChildExit 0])"
    by (simp add: run_twice_def r1 r2)
  show ?thesis
    unfolding tw by (simp add: r1 r2 launches_of_def stdout_of_def)
qed

theorem two_runs_independent_witness:
  "example_env (Some RegularFile) (Exited 0) \<noteq> example_env_later
   \<and> run_twice example_signals (example_env (Some RegularFile) (Exited 0)) example_env_later [] =
       (Inr (), [Launch example_target, ChildExit 0, Launch example_target, ChildExit 0])"
proof -
  have f1: "os_path_isfile (example_env (Some RegularFile) (Exited 0)) example_target"
    by (simp add: example_env_def os_path_isfile_def)
  have l1: "launch (example_env (Some RegularFile) (Exited 0)) example_target = Exited 0"
    by (simp add: example_env_def)
  have p2: "exe_path example_env_later = Inr example_target"
    by code_simp
  have f2: "os_path_isfile example_env_later example_target"
    by (simp add: example_env_later_def os_path_isfile_def)
  have l2: "launch example_env_later example_target = Exited 0"
    by (simp add: example_env_later_def)
  have d: "example_env (Some RegularFile) (Exited 0) \<noteq> example_env_later"
    by (simp add: example_env_def example_env_later_def)
  note r = two_runs_independent [OF example_path f1 l1 p2 f2 l2, of example_signals "[]",
             THEN conjunct1]
  show ?thesis
    unfolding r using d by simp
qed

text \<open>
  Claim C9. A launch happens only when \<open>os.stat\<close> finds a regular file at the path of
  the executable. When it finds something else there (a directory, a device),
  \<open>run_executable\<close> takes the branch of the missing executable: it launches nothing, and
  the one thing it does is to \<open>print\<close> the report with the path, which is the line
  added to standard output when standard output takes it.
\<close>

theorem launch_only_regular_file:
  "(launches_of (snd (run_executable signals e t)) \<noteq> launches_of t \<longrightarrow>
      (\<exists>q. exe_path e = Inr q \<and> stat_kind e q = Some RegularFile))
   \<and> (exe_path e = Inr p \<and> stat_kind e p = Some k \<and> k \<noteq> RegularFile \<longrightarrow>
        run_executable signals e t =
          print e t (''Error: The executable was not found at '' @ p)
        \<and> launches_of (snd (run_executable signals e t)) = launches_of t
        \<and> (stdout_print e (''Error: The executable was not found at '' @ p) = Printed \<longrightarrow>
             run_executable signals e t =
               (Inr (), t @ [Stdout (''Error: The executable was not found at '' @ p
                                       @ [CHR 0x0A])])))"
proof (intro conjI impI)
  assume l: "launches_of (snd (run_executable signals e t)) \<noteq> launches_of t"
  show "\<exists>q. exe_path e = Inr q \<and> stat_kind e q = Some RegularFile"
  proof (cases "exe_path e")
    case (Inl x)
    with l show ?thesis by (simp add: run_unresolved)
  next
    case (Inr q)
    have "os_path_isfile e q"
    proof (rule ccontr)
      assume "\<not> os_path_isfile e q"
      with Inr l show False by (simp add: run_missing launches_of_print)
    qed
    then have "stat_kind e q = Some RegularFile"
      by (simp add: os_path_isfile_def split: option.splits)
    with Inr show ?thesis by simp
  qed
next
  assume a: "exe_path e = Inr p \<and> stat_kind e p = Some k \<and> k \<noteq> RegularFile"
  then have n: "\<not> os_path_isfile e p"
    by (simp add: os_path_isfile_def)
  from a n show r: "run_executable signals e t =
          print e t (''Error: The executable was not found at '' @ p)"
    by (simp add: run_missing)
  show "launches_of (snd (run_executable signals e t)) = launches_of t"
    unfolding r by (rule launches_of_print)
  assume "stdout_print e (''Error: The executable was not found at '' @ p) = Printed"
  then show "run_executable signals e t =
               (Inr (), t @ [Stdout (''Error: The executable was not found at '' @ p
                                       @ [CHR 0x0A])])"
    unfolding r by (simp add: print_printed)
qed

theorem launch_only_regular_file_witness:
  "stat_kind (example_env (Some Directory) (Exited 0)) example_target = Some Directory
   \<and> run_executable example_signals (example_env (Some Directory) (Exited 0)) [] =
       (Inr (), [Stdout (''Error: The executable was not found at '' @ example_target @ [CHR 0x0A])])"
proof -
  have a: "exe_path (example_env (Some Directory) (Exited 0)) = Inr example_target
           \<and> stat_kind (example_env (Some Directory) (Exited 0)) example_target = Some Directory
           \<and> Directory \<noteq> RegularFile"
    by (simp add: example_path) (simp add: example_env_def)
  have q: "stdout_print (example_env (Some Directory) (Exited 0))
             (''Error: The executable was not found at '' @ example_target) = Printed"
    by (simp add: example_env_def)
  note r = launch_only_regular_file
             [where e = "example_env (Some Directory) (Exited 0)" and p = example_target
                and k = Directory and signals = example_signals and t = "[]",
              THEN conjunct2, rule_format, OF a, THEN conjunct2, THEN conjunct2,
              rule_format, OF q]
  show ?thesis
    unfolding r using a by simp
qed

text \<open>
  Claim C10, as stated, fails: two runs agree on the location of the script, on the file
  at the path of the executable (none) and on the outcome of a launch, and differ in what
  they do, because standard output differs: on a terminal the report is printed and the
  call returns \<open>None\<close>; on an unbuffered standard output whose device refuses the
  write, \<open>print\<close> raises and the call does not return \<open>None\<close>.
\<close>

theorem run_executable_deterministic_counterexample:
  "script_location (example_env None (Exited 0)) =
     script_location (example_env_unbuffered_full None (Exited 0))
   \<and> exe_path (example_env None (Exited 0)) = Inr example_target
   \<and> os_path_isfile (example_env None (Exited 0)) example_target =
       os_path_isfile (example_env_unbuffered_full None (Exited 0)) example_target
   \<and> launch (example_env None (Exited 0)) example_target =
       launch (example_env_unbuffered_full None (Exited 0)) example_target
   \<and> run_executable example_signals (example_env None (Exited 0)) [] \<noteq>
       run_executable example_signals (example_env_unbuffered_full None (Exited 0)) []
   \<and> fst (run_executable example_signals (example_env_unbuffered_full None (Exited 0)) []) =
       Inl (OSError (OtherOSError 28))"
  by code_simp

text \<open>
  Claim C10, amended. Two runs on one platform (one table of signal names) whose
  surroundings give the same location of the script, the same answer of
  \<open>os.path.isfile\<close> at the path of the executable, where a launch happens the same
  outcome of the launch, and the same behaviour of standard output, return the same value
  and add the same events to the trace; the value is \<open>None\<close> whenever \<open>print\<close> does
  not raise and either no launch happens or the child ends with a return code.
\<close>

theorem run_executable_deterministic:
  assumes "script_location e1 = script_location e2"
    and "\<forall>p. exe_path e1 = Inr p \<longrightarrow> os_path_isfile e1 p = os_path_isfile e2 p"
    and "\<forall>p. exe_path e1 = Inr p \<and> os_path_isfile e1 p \<longrightarrow> launch e1 p = launch e2 p"
    and "stdout_print e1 = stdout_print e2"
  shows "run_executable signals e1 t = run_executable signals e2 t
         \<and> (\<forall>p rc. exe_path e1 = Inr p \<and> (os_path_isfile e1 p \<longrightarrow> launch e1 p = Exited rc)
                  \<and> (\<forall>s. stdout_print e1 s = Printed \<or> stdout_print e1 s = NoStdout)
                \<longrightarrow> fst (run_executable signals e1 t) = Inr ())"
proof -
  have x: "exe_path e1 = exe_path e2"
    using assms(1) by (simp add: exe_path_def)
  have pr: "\<And>u s. print e1 u s = print e2 u s"
    using assms(4) by (simp add: print_def)
  have ok: "fst (print e1 u s) = Inr ()"
    if "\<forall>s. stdout_print e1 s = Printed \<or> stdout_print e1 s = NoStdout" for u s
    using that [rule_format, of s] by (auto simp: print_def)
  have none: "fst (run_executable signals e1 t) = Inr ()"
    if p: "exe_path e1 = Inr p" and c: "os_path_isfile e1 p \<longrightarrow> launch e1 p = Exited rc"
      and o: "\<forall>s. stdout_print e1 s = Printed \<or> stdout_print e1 s = NoStdout"
    for p rc
  proof (cases "os_path_isfile e1 p")
    case False
    with p show ?thesis by (simp add: run_missing ok [OF o])
  next
    case True
    with c have "launch e1 p = Exited rc" by simp
    then show ?thesis
      by (cases "rc = 0") (simp_all add: run_launched [OF p True] ok [OF o])
  qed
  have same: "run_executable signals e1 t = run_executable signals e2 t"
  proof (cases "exe_path e1")
    case (Inl f)
    then have "exe_path e2 = Inl f" using x by simp
    with Inl show ?thesis by (simp add: run_unresolved)
  next
    case (Inr p)
    then have p2: "exe_path e2 = Inr p" using x by simp
    show ?thesis
    proof (cases "os_path_isfile e1 p")
      case False
      then have "\<not> os_path_isfile e2 p" using assms(2) Inr by simp
      with False Inr p2 show ?thesis by (simp add: run_missing pr)
    next
      case True
      then have f2: "os_path_isfile e2 p" using assms(2) Inr by simp
      have "launch e1 p = launch e2 p" using assms(3) Inr True by simp
      then show ?thesis
        by (simp add: run_launched [OF Inr True] run_launched [OF p2 f2] pr
                 split: launch_outcome.splits)
    qed
  qed
  from same none show ?thesis by blast
qed

theorem run_executable_deterministic_witness:
  "example_env (Some RegularFile) (Exited 3) \<noteq> example_env_other
   \<and> run_executable example_signals (example_env (Some RegularFile) (Exited 3)) [] =
       run_executable example_signals example_env_other []"
proof -
  have l: "script_location (example_env (Some RegularFile) (Exited 3)) =
             script_location example_env_other"
    by code_simp
  have f: "\<forall>p. exe_path (example_env (Some RegularFile) (Exited 3)) = Inr p \<longrightarrow>
             os_path_isfile (example_env (Some RegularFile) (Exited 3)) p =
             os_path_isfile example_env_other p"
    by (simp add: example_path) (simp add: example_env_def example_env_other_def os_path_isfile_def)
  have c: "\<forall>p. exe_path (example_env (Some RegularFile) (Exited 3)) = Inr p
                \<and> os_path_isfile (example_env (Some RegularFile) (Exited 3)) p \<longrightarrow>
             launch (example_env (Some RegularFile) (Exited 3)) p = launch example_env_other p"
    by (simp add: example_path) (simp add: example_env_def example_env_other_def)
  have o: "stdout_print (example_env (Some RegularFile) (Exited 3)) =
             stdout_print example_env_other"
    by (simp add: example_env_def example_env_other_def)
  have d: "example_env (Some RegularFile) (Exited 3) \<noteq> example_env_other"
    by (simp add: example_env_def example_env_other_def)
  show ?thesis
    using run_executable_deterministic [OF l f c o, of example_signals "[]", THEN conjunct1] d
    by simp
qed

end
